theory Spec2Isabelle
  imports Main
begin

section \<open>Data model\<close>

text \<open>
  The portal of \<^verbatim>\<open>app.py\<close> keeps two tables that the visible code touches:
  \<^verbatim>\<open>models.Department\<close> and \<^verbatim>\<open>models.User\<close>. A row is a record holding the columns
  that \<^verbatim>\<open>app.py\<close> sets when it builds one; a table is the list of its rows in insertion
  order, so that \<^verbatim>\<open>.count()\<close> is the length and \<^verbatim>\<open>.first()\<close> is the first match.

  A Python \<^verbatim>\<open>str\<close> is modelled by the bytes of its UTF-8 encoding. The encoding is
  injective, so the comparison \<^verbatim>\<open>username == "admin"\<close> is equality of these byte strings.
  The Vietnamese literals of the source are written out byte by byte.

  The schema (\<^verbatim>\<open>app.models\<close>) is not part of the visible code, so a table carries no
  constraint and a commit does not fail. The lemmas \<open>startup_event_usernames_distinct\<close>
  and \<open>startup_event_codes_distinct\<close> below show that startup keeps usernames and
  department codes unique where they were: a uniqueness constraint on either column
  would not reject what startup inserts.
\<close>

record Department =
  code :: string
  name :: string

datatype UserRole = ADMIN | USER

record User =
  username :: string
  email :: string
  full_name :: string
  hashed_password :: string
  role :: UserRole

record Database =
  departments :: "Department list"
  users :: "User list"

text \<open>
  A \<^verbatim>\<open>Session\<close> as the code uses it: the committed tables, and the objects handed to
  \<^verbatim>\<open>db.add\<close> that wait for \<^verbatim>\<open>db.commit\<close>. Queries read the committed tables; at each
  query of \<^verbatim>\<open>startup_event\<close> nothing is pending (the session is fresh, or a commit has just
  run), so a session that flushes before querying reads the same rows.
\<close>

record Session =
  committed :: Database
  new_departments :: "Department list"
  new_users :: "User list"

definition get_db :: "Database \<Rightarrow> Session" where
  "get_db d = \<lparr>committed = d, new_departments = [], new_users = []\<rparr>"

definition add_department :: "Department \<Rightarrow> Session \<Rightarrow> Session" where
  "add_department dept db = db\<lparr>new_departments := new_departments db @ [dept]\<rparr>"

definition add_user :: "User \<Rightarrow> Session \<Rightarrow> Session" where
  "add_user u db = db\<lparr>new_users := new_users db @ [u]\<rparr>"

definition commit :: "Session \<Rightarrow> Session" where
  "commit db =
     \<lparr>committed = \<lparr>departments = departments (committed db) @ new_departments db,
                    users = users (committed db) @ new_users db\<rparr>,
      new_departments = [], new_users = []\<rparr>"

text \<open>\<^verbatim>\<open>db.close()\<close> drops whatever was added and not committed.\<close>

definition close :: "Session \<Rightarrow> Database" where
  "close db = committed db"

definition count_departments :: "Session \<Rightarrow> nat" where
  "count_departments db = length (departments (committed db))"

definition all_departments :: "Session \<Rightarrow> Department list" where
  "all_departments db = departments (committed db)"

definition first_user_by_username :: "string \<Rightarrow> Session \<Rightarrow> User option" where
  "first_user_by_username n db = find (\<lambda>u. username u = n) (users (committed db))"

section \<open>Startup seeding\<close>

definition departments_data :: "Department list" where
  "departments_data =
    [
     \<lparr>code = ''K1'',
      name = ''Khoa Tri'' @ [CHR 0xE1, CHR 0xBA, CHR 0xBF] @ ''t h'' @
        [CHR 0xE1, CHR 0xBB, CHR 0x8D] @ ''c M'' @ [CHR 0xC3, CHR 0xA1] @ ''c - L'' @
        [CHR 0xC3, CHR 0xAA] @ ''nin''\<rparr>,
     \<lparr>code = ''K2'',
      name = ''Khoa L'' @ [CHR 0xE1, CHR 0xBB, CHR 0x8B] @ ''ch s'' @
        [CHR 0xE1, CHR 0xBB, CHR 0xAD] @ '' '' @
        [CHR 0xC4, CHR 0x90, CHR 0xE1, CHR 0xBA, CHR 0xA3] @ ''ng C'' @
        [CHR 0xE1, CHR 0xBB, CHR 0x99] @ ''ng s'' @ [CHR 0xE1, CHR 0xBA, CHR 0xA3] @
        ''n Vi'' @ [CHR 0xE1, CHR 0xBB, CHR 0x87] @ ''t Nam''\<rparr>,
     \<lparr>code = ''K3'',
      name = ''Khoa C'' @ [CHR 0xC3, CHR 0xB4] @ ''ng t'' @ [CHR 0xC3, CHR 0xA1] @ ''c '' @
        [CHR 0xC4, CHR 0x90, CHR 0xE1, CHR 0xBA, CHR 0xA3] @ ''ng, C'' @
        [CHR 0xC3, CHR 0xB4] @ ''ng t'' @ [CHR 0xC3, CHR 0xA1] @ ''c Ch'' @
        [CHR 0xC3, CHR 0xAD] @ ''nh tr'' @ [CHR 0xE1, CHR 0xBB, CHR 0x8B]\<rparr>,
     \<lparr>code = ''K4'',
      name = ''Khoa Chi'' @ [CHR 0xE1, CHR 0xBA, CHR 0xBF] @ ''n thu'' @
        [CHR 0xE1, CHR 0xBA, CHR 0xAD] @ ''t''\<rparr>,
     \<lparr>code = ''K5'',
      name = ''Khoa V'' @ [CHR 0xC4, CHR 0x83] @ ''n h'' @ [CHR 0xC3, CHR 0xB3] @
        ''a - Ngo'' @ [CHR 0xE1, CHR 0xBA, CHR 0xA1] @ ''i ng'' @
        [CHR 0xE1, CHR 0xBB, CHR 0xAF]\<rparr>,
     \<lparr>code = ''K6'',
      name = ''Khoa Kinh t'' @ [CHR 0xE1, CHR 0xBA, CHR 0xBF] @ '' ch'' @
        [CHR 0xC3, CHR 0xAD] @ ''nh tr'' @ [CHR 0xE1, CHR 0xBB, CHR 0x8B] @ '' M'' @
        [CHR 0xC3, CHR 0xA1] @ ''c - L'' @ [CHR 0xC3, CHR 0xAA] @ ''nin''\<rparr>,
     \<lparr>code = ''K7'',
      name = ''Khoa Ch'' @ [CHR 0xE1, CHR 0xBB, CHR 0xA7] @ '' ngh'' @
        [CHR 0xC4, CHR 0xA9] @ ''a x'' @ [CHR 0xC3, CHR 0xA3] @ '' h'' @
        [CHR 0xE1, CHR 0xBB, CHR 0x99] @ ''i khoa h'' @ [CHR 0xE1, CHR 0xBB, CHR 0x8D] @
        ''c''\<rparr>,
     \<lparr>code = ''K8'',
      name = ''Khoa T'' @ [CHR 0xC3, CHR 0xA2] @ ''m l'' @ [CHR 0xC3, CHR 0xBD] @ '' h'' @
        [CHR 0xE1, CHR 0xBB, CHR 0x8D] @ ''c qu'' @ [CHR 0xC3, CHR 0xA2] @ ''n s'' @
        [CHR 0xE1, CHR 0xBB, CHR 0xB1]\<rparr>,
     \<lparr>code = ''K9'',
      name = ''Khoa B'' @ [CHR 0xE1, CHR 0xBA, CHR 0xAF] @ ''n s'' @ [CHR 0xC3, CHR 0xBA] @
        ''ng''\<rparr>,
     \<lparr>code = ''K10'',
      name = ''Khoa Qu'' @ [CHR 0xC3, CHR 0xA2] @ ''n s'' @
        [CHR 0xE1, CHR 0xBB, CHR 0xB1] @ '' chung''\<rparr>,
     \<lparr>code = ''K11'',
      name = ''Khoa Gi'' @ [CHR 0xC3, CHR 0xA1] @ ''o d'' @
        [CHR 0xE1, CHR 0xBB, CHR 0xA5] @ ''c th'' @ [CHR 0xE1, CHR 0xBB, CHR 0x83] @
        '' ch'' @ [CHR 0xE1, CHR 0xBA, CHR 0xA5] @ ''t''\<rparr>,
     \<lparr>code = ''K12'',
      name = ''Khoa S'' @ [CHR 0xC6, CHR 0xB0] @ '' ph'' @ [CHR 0xE1, CHR 0xBA, CHR 0xA1] @
        ''m qu'' @ [CHR 0xC3, CHR 0xA2] @ ''n s'' @ [CHR 0xE1, CHR 0xBB, CHR 0xB1]\<rparr>,
     \<lparr>code = ''K13'',
      name = ''Khoa T'' @ [CHR 0xC6, CHR 0xB0] @ '' t'' @
        [CHR 0xC6, CHR 0xB0, CHR 0xE1, CHR 0xBB, CHR 0x9F] @ ''ng H'' @
        [CHR 0xE1, CHR 0xBB, CHR 0x93] @ '' Ch'' @ [CHR 0xC3, CHR 0xAD] @
        '' Minh''\<rparr>,
     \<lparr>code = ''K14'',
      name = ''Khoa Nh'' @ [CHR 0xC3, CHR 0xA0] @ '' n'' @
        [CHR 0xC6, CHR 0xB0, CHR 0xE1, CHR 0xBB, CHR 0x9B] @ ''c & Ph'' @
        [CHR 0xC3, CHR 0xA1] @ ''p lu'' @ [CHR 0xE1, CHR 0xBA, CHR 0xAD] @ ''t''\<rparr>
    ]"

text \<open>
  The row that \<^verbatim>\<open>startup_event\<close> builds for the administrator. The hasher
  \<^verbatim>\<open>app.auth.get_password_hash\<close> is imported by the source and is a parameter here: it
  stands for the function as it answers during one startup, whatever salt it draws.
\<close>

definition admin :: "(string \<Rightarrow> string) \<Rightarrow> User" where
  "admin get_password_hash =
     \<lparr>username = ''admin'',
      email = ''admin@sqct.edu.vn'',
      full_name = ''Qu'' @ [CHR 0xE1, CHR 0xBA, CHR 0xA3] @ ''n tr'' @
        [CHR 0xE1, CHR 0xBB, CHR 0x8B] @ '' vi'' @ [CHR 0xC3, CHR 0xAA] @ ''n'',
      hashed_password = get_password_hash ''admin123'',
      role = ADMIN\<rparr>"

text \<open>
  \<^verbatim>\<open>startup_event\<close>, statement by statement; each rebinding of \<open>db\<close> is the session
  after the statements of one \<^verbatim>\<open>if\<close>. The two \<^verbatim>\<open>print\<close> calls write to the console only
  and are left out.
\<close>

definition startup_event :: "(string \<Rightarrow> string) \<Rightarrow> Database \<Rightarrow> Database" where
  "startup_event get_password_hash d =
     (let db = get_db d;
          existing_depts = count_departments db;
          db = (if existing_depts = 0
                then commit (fold add_department departments_data db)
                else db);
          admin_user = first_user_by_username ''admin'' db;
          db = (case admin_user of
                  None \<Rightarrow> commit (add_user (admin get_password_hash) db)
                | Some _ \<Rightarrow> db)
      in close db)"

text \<open>The rows of the user table that a startup inserted: those behind the old ones.\<close>

definition created_users :: "(string \<Rightarrow> string) \<Rightarrow> Database \<Rightarrow> User list" where
  "created_users get_password_hash d =
     drop (length (users d)) (users (startup_event get_password_hash d))"

definition created_departments :: "(string \<Rightarrow> string) \<Rightarrow> Database \<Rightarrow> Department list" where
  "created_departments get_password_hash d =
     drop (length (departments d)) (departments (startup_event get_password_hash d))"

section \<open>Page routes\<close>

text \<open>
  A handler receives the request, the database session and the value that the dependency
  \<^verbatim>\<open>get_optional_user\<close> produced: \<open>None\<close> for Python's \<^verbatim>\<open>None\<close>, \<open>Some u\<close> for a user
  object (which is truthy). It returns its response together with the effects of its
  main logic in the order they happen: the department query and the template render.
  A template context is the dictionary literal of the source, key by key.
\<close>

datatype 'r context_value =
    Request_value 'r
  | User_value User
  | Departments_value "Department list"

datatype 'r Response =
    RedirectResponse string nat
  | TemplateResponse string "(string \<times> 'r context_value) list"

datatype effect = Query_all_departments | Render_template string

type_synonym 'r handler = "'r \<Rightarrow> Session \<Rightarrow> User option \<Rightarrow> 'r Response \<times> effect list"

definition index :: "'r handler" where
  "index request db user =
     (case user of
        None \<Rightarrow> (RedirectResponse ''/login'' 302, [])
      | Some _ \<Rightarrow> (RedirectResponse ''/dashboard'' 302, []))"

definition materials_page :: "'r handler" where
  "materials_page request db user =
     (case user of
        None \<Rightarrow> (RedirectResponse ''/login'' 302, [])
      | Some u \<Rightarrow>
          (let departments = all_departments db in
           (TemplateResponse ''index.html''
              [(''request'', Request_value request),
               (''user'', User_value u),
               (''departments'', Departments_value departments)],
            [Query_all_departments, Render_template ''index.html''])))"

definition login_page :: "'r handler" where
  "login_page request db user =
     (case user of
        Some _ \<Rightarrow> (RedirectResponse ''/dashboard'' 302, [])
      | None \<Rightarrow>
          (TemplateResponse ''login.html'' [(''request'', Request_value request)],
           [Render_template ''login.html'']))"

definition register_page :: "'r handler" where
  "register_page request db user =
     (case user of
        Some _ \<Rightarrow> (RedirectResponse ''/dashboard'' 302, [])
      | None \<Rightarrow>
          (TemplateResponse ''register.html'' [(''request'', Request_value request)],
           [Render_template ''register.html'']))"

definition detail_page :: "'r handler" where
  "detail_page request db user =
     (case user of
        None \<Rightarrow> (RedirectResponse ''/login'' 302, [])
      | Some u \<Rightarrow>
          (let departments = all_departments db in
           (TemplateResponse ''detail.html''
              [(''request'', Request_value request),
               (''user'', User_value u),
               (''departments'', Departments_value departments)],
            [Query_all_departments, Render_template ''detail.html''])))"

definition dashboard_page :: "'r handler" where
  "dashboard_page request db user =
     (case user of
        None \<Rightarrow> (RedirectResponse ''/login'' 302, [])
      | Some u \<Rightarrow>
          (let departments = all_departments db in
           (TemplateResponse ''dashboard.html''
              [(''request'', Request_value request),
               (''user'', User_value u),
               (''departments'', Departments_value departments)],
            [Query_all_departments, Render_template ''dashboard.html''])))"

definition statistics_page :: "'r handler" where
  "statistics_page request db user =
     (case user of
        None \<Rightarrow> (RedirectResponse ''/login'' 302, [])
      | Some u \<Rightarrow>
          (let departments = all_departments db in
           (TemplateResponse ''statistics.html''
              [(''request'', Request_value request),
               (''user'', User_value u),
               (''departments'', Departments_value departments)],
            [Query_all_departments, Render_template ''statistics.html''])))"

text \<open>
  The \<^verbatim>\<open>@app.get\<close> decorators of \<^verbatim>\<open>app.py\<close>, in the order of the file. The routers
  included under \<^verbatim>\<open>/api\<close> are defined in other modules and are not part of the table.
\<close>

definition page_routes :: "(string \<times> 'r handler) list" where
  "page_routes =
     [(''/'', index),
      (''/materials'', materials_page),
      (''/login'', login_page),
      (''/register'', register_page),
      (''/detail'', detail_page),
      (''/dashboard'', dashboard_page),
      (''/statistics'', statistics_page)]"

definition get_page ::
  "string \<Rightarrow> 'r \<Rightarrow> Session \<Rightarrow> User option \<Rightarrow> ('r Response \<times> effect list) option" where
  "get_page path request db user =
     (case map_of page_routes path of
        None \<Rightarrow> None
      | Some handler \<Rightarrow> Some (handler request db user))"

fun is_redirect :: "'r Response \<Rightarrow> bool" where
  "is_redirect (RedirectResponse _ _) = True"
| "is_redirect (TemplateResponse _ _) = False"

fun is_render :: "effect \<Rightarrow> bool" where
  "is_render (Render_template _) = True"
| "is_render Query_all_departments = False"

section \<open>The authentication core, from the specification\<close>

text \<open>
  Modelled from the spec: the Password Hasher (\<^verbatim>\<open>app.auth\<close>), of which \<^verbatim>\<open>app.py\<close> only
  imports \<^verbatim>\<open>get_password_hash\<close>. The specification gives no algorithm; it gives the
  contract below. Plaintext must be non-empty; a stored hash is never empty and never the
  plaintext; and \<^verbatim>\<open>verify(password, hash)\<close> is true for a password and the hash stored
  for it.
\<close>

definition digest_contract :: "(string \<Rightarrow> string) \<Rightarrow> bool" where
  "digest_contract hash \<longleftrightarrow> (\<forall>p. p \<noteq> [] \<longrightarrow> hash p \<noteq> [] \<and> hash p \<noteq> p)"

definition verify_contract :: "(string \<Rightarrow> string) \<Rightarrow> (string \<Rightarrow> string \<Rightarrow> bool) \<Rightarrow> bool" where
  "verify_contract hash verify_password \<longleftrightarrow> (\<forall>p. p \<noteq> [] \<longrightarrow> verify_password p (hash p))"

text \<open>
  Modelled from the spec: the error taxonomy of the core and the status each error has
  at the route boundary (401, 403 and 401), and the response to a failed guard: a missing
  or invalid token is a redirect to login on a browser page and a 401 on an API route;
  Forbidden is a 403 on both.
\<close>

datatype auth_error = Unauthenticated | Forbidden | InvalidCredentials

fun status_code :: "auth_error \<Rightarrow> nat" where
  "status_code Unauthenticated = 401"
| "status_code Forbidden = 403"
| "status_code InvalidCredentials = 401"

datatype surface = Browser_page | Api_route

datatype boundary_response = Redirect_to_login | Status nat

fun failure_response :: "surface \<Rightarrow> auth_error \<Rightarrow> boundary_response" where
  "failure_response Browser_page Unauthenticated = Redirect_to_login"
| "failure_response Api_route Unauthenticated = Status (status_code Unauthenticated)"
| "failure_response _ Forbidden = Status (status_code Forbidden)"
| "failure_response _ InvalidCredentials = Status (status_code InvalidCredentials)"

text \<open>
  Modelled from the spec: the Identity Resolver (\<^verbatim>\<open>app.dependencies\<close>, of which
  \<^verbatim>\<open>app.py\<close> imports \<^verbatim>\<open>get_optional_user\<close> and \<^verbatim>\<open>get_current_user\<close>). Two call
  contracts share one algorithm: extract the token; if it is absent, or the verifier
  fails with TokenInvalid, or no user has the verified subject as identifier, the Required
  variant fails with Unauthenticated and the Optional variant yields anonymous; otherwise
  the user is yielded. The transport of the token and the Token Verifier are parameters.
\<close>

datatype token_error = TokenInvalid

datatype variant = Required | Optional

fun no_identity :: "variant \<Rightarrow> auth_error + User option" where
  "no_identity Required = Inl Unauthenticated"
| "no_identity Optional = Inr None"

definition identity_resolver ::
  "variant \<Rightarrow> ('r \<Rightarrow> 'tok option) \<Rightarrow> ('tok \<Rightarrow> token_error + string) \<Rightarrow> User list \<Rightarrow> 'r
     \<Rightarrow> auth_error + User option" where
  "identity_resolver v extract_token verify_token store request =
     (case extract_token request of
        None \<Rightarrow> no_identity v
      | Some token \<Rightarrow>
          (case verify_token token of
             Inl TokenInvalid \<Rightarrow> no_identity v
           | Inr subject \<Rightarrow>
               (case find (\<lambda>u. username u = subject) store of
                  None \<Rightarrow> no_identity v
                | Some u \<Rightarrow> Inr (Some u))))"

definition get_current_user ::
  "('r \<Rightarrow> 'tok option) \<Rightarrow> ('tok \<Rightarrow> token_error + string) \<Rightarrow> User list \<Rightarrow> 'r
     \<Rightarrow> auth_error + User option" where
  "get_current_user = identity_resolver Required"

definition get_optional_user ::
  "('r \<Rightarrow> 'tok option) \<Rightarrow> ('tok \<Rightarrow> token_error + string) \<Rightarrow> User list \<Rightarrow> 'r
     \<Rightarrow> auth_error + User option" where
  "get_optional_user = identity_resolver Optional"

text \<open>
  Modelled from the spec: a guard is a check executed before a route's main logic that
  may short-circuit the request with a failure; otherwise the main logic runs on the
  identity that the guard yielded.
\<close>

definition guard :: "auth_error + 'i \<Rightarrow> ('i \<Rightarrow> 'a) \<Rightarrow> auth_error + 'a" where
  "guard resolved main_logic =
     (case resolved of Inl e \<Rightarrow> Inl e | Inr identity \<Rightarrow> Inr (main_logic identity))"

text \<open>
  Modelled from the spec: the Role Authorizer, which is not in \<^verbatim>\<open>app.py\<close>. It wraps the
  Required Identity Resolver and re-checks the role of the resolved user against the
  required role; a mismatch fails with Forbidden. The Required resolver yields no
  anonymous identity; that branch fails closed.
\<close>

definition role_authorizer ::
  "UserRole \<Rightarrow> ('r \<Rightarrow> 'tok option) \<Rightarrow> ('tok \<Rightarrow> token_error + string) \<Rightarrow> User list \<Rightarrow> 'r
     \<Rightarrow> auth_error + User" where
  "role_authorizer required extract_token verify_token store request =
     (case get_current_user extract_token verify_token store request of
        Inl e \<Rightarrow> Inl e
      | Inr None \<Rightarrow> Inl Unauthenticated
      | Inr (Some u) \<Rightarrow> if role u = required then Inr u else Inl Forbidden)"

text \<open>
  Modelled from the spec: Login (\<^verbatim>\<open>app.routes.auth\<close>, included by \<^verbatim>\<open>app.py\<close> under
  \<^verbatim>\<open>/api\<close>). It accepts an identifier and a plaintext password; on success it returns a
  session token issued for the user plus the user; an unknown identifier and a wrong
  password fail alike with InvalidCredentials. The Token Issuer is a parameter.
\<close>

definition login ::
  "(string \<Rightarrow> string \<Rightarrow> bool) \<Rightarrow> (string \<Rightarrow> 'tok) \<Rightarrow> User list \<Rightarrow> string \<Rightarrow> string
     \<Rightarrow> auth_error + ('tok \<times> User)" where
  "login verify_password issue store identifier password =
     (case find (\<lambda>u. username u = identifier) store of
        None \<Rightarrow> Inl InvalidCredentials
      | Some u \<Rightarrow>
          if verify_password password (hashed_password u)
          then Inr (issue (username u), u)
          else Inl InvalidCredentials)"

section \<open>Example inputs\<close>

text \<open>
  Concrete inputs for the examples: a hasher that prefixes a tag (with the matching
  check), the empty database, a database whose only user is not the administrator, and
  requests that are their own optional token, verified by a fixed table.
\<close>

definition example_hash :: "string \<Rightarrow> string" where
  "example_hash p = ''$ex$'' @ p"

definition example_verify :: "string \<Rightarrow> string \<Rightarrow> bool" where
  "example_verify p digest = (digest = example_hash p)"

definition empty_db :: Database where
  "empty_db = \<lparr>departments = [], users = []\<rparr>"

definition bob :: User where
  "bob = \<lparr>username = ''bob'', email = ''bob@sqct.edu.vn'', full_name = ''Bob'',
          hashed_password = example_hash ''secret'', role = USER\<rparr>"

definition bob_db :: Database where
  "bob_db = \<lparr>departments = [\<lparr>code = ''K1'', name = ''Khoa''\<rparr>], users = [bob]\<rparr>"

definition example_extract :: "string option \<Rightarrow> string option" where
  "example_extract request = request"

definition example_verify_token :: "string \<Rightarrow> token_error + string" where
  "example_verify_token token =
     (if token = ''token-admin'' then Inr ''admin''
      else if token = ''token-bob'' then Inr ''bob''
      else Inl TokenInvalid)"

definition example_issue :: "string \<Rightarrow> string" where
  "example_issue subject = ''token-'' @ subject"

section \<open>Properties of the startup seeding\<close>

lemma fold_add_department:
  "fold add_department xs db = db\<lparr>new_departments := new_departments db @ xs\<rparr>"
  by (induction xs arbitrary: db) (simp_all add: add_department_def)

lemma departments_startup_event:
  "departments (startup_event h d) =
     (if departments d = [] then departments_data else departments d)"
  by (simp add: startup_event_def Let_def get_db_def count_departments_def
      first_user_by_username_def fold_add_department commit_def add_user_def close_def
      split: option.split)

lemma users_startup_event:
  "users (startup_event h d) =
     (if find (\<lambda>u. username u = ''admin'') (users d) = None
      then users d @ [admin h] else users d)"
  by (simp add: startup_event_def Let_def get_db_def count_departments_def
      first_user_by_username_def fold_add_department commit_def add_user_def close_def
      split: option.split)

lemma created_users_eq:
  "created_users h d =
     (if find (\<lambda>u. username u = ''admin'') (users d) = None then [admin h] else [])"
  by (simp add: created_users_def users_startup_event)

lemma created_departments_eq:
  "created_departments h d = (if departments d = [] then departments_data else [])"
  by (simp add: created_departments_def departments_startup_event)

lemma users_startup_event_created:
  "users (startup_event h d) = users d @ created_users h d"
  by (simp add: created_users_eq users_startup_event)

lemma departments_startup_event_created:
  "departments (startup_event h d) = departments d @ created_departments h d"
  by (simp add: created_departments_eq departments_startup_event)

lemma codes_departments_data:
  "map code departments_data =
     [''K1'', ''K2'', ''K3'', ''K4'', ''K5'', ''K6'', ''K7'', ''K8'', ''K9'', ''K10'',
      ''K11'', ''K12'', ''K13'', ''K14'']"
  by (simp add: departments_data_def)

lemma length_departments_data: "length departments_data = 14"
  by (simp add: departments_data_def)

lemma distinct_codes_departments_data: "distinct (map code departments_data)"
  by (simp add: codes_departments_data)

lemma departments_data_not_Nil: "departments_data \<noteq> []"
  using length_departments_data by auto

lemma find_username_None:
  "find (\<lambda>u. username u = n) xs = None \<longleftrightarrow> n \<notin> set (map username xs)"
  by (auto simp: find_None_iff)

lemma find_append_cases:
  "find P (xs @ ys) = (case find P xs of None \<Rightarrow> find P ys | Some x \<Rightarrow> Some x)"
  by (induction xs) simp_all

lemma find_admin_after_seed:
  "find (\<lambda>u. username u = ''admin'') (xs @ [admin h]) \<noteq> None"
  by (simp add: find_append_cases admin_def split: option.split)

lemma startup_event_idem:
  "startup_event h2 (startup_event h1 d) = startup_event h1 d"
proof (rule Database.equality)
  show "departments (startup_event h2 (startup_event h1 d)) = departments (startup_event h1 d)"
    by (simp add: departments_startup_event departments_data_not_Nil)
  show "users (startup_event h2 (startup_event h1 d)) = users (startup_event h1 d)"
    using find_admin_after_seed [of "users d" h1]
    by (simp add: users_startup_event)
  show "Database.more (startup_event h2 (startup_event h1 d)) = Database.more (startup_event h1 d)"
    by simp
qed

lemma startup_event_usernames_distinct:
  assumes "distinct (map username (users d))"
  shows "distinct (map username (users (startup_event h d)))"
proof (cases "find (\<lambda>u. username u = ''admin'') (users d)")
  case None
  then have "''admin'' \<notin> set (map username (users d))"
    by (simp add: find_username_None)
  with assms None show ?thesis
    by (simp add: users_startup_event admin_def)
next
  case (Some a)
  with assms show ?thesis
    by (simp add: users_startup_event)
qed

lemma startup_event_codes_distinct:
  assumes "distinct (map code (departments d))"
  shows "distinct (map code (departments (startup_event h d)))"
  using assms by (simp add: departments_startup_event distinct_codes_departments_data)

lemma startup_event_empty_db:
  "startup_event h empty_db = \<lparr>departments = departments_data, users = [admin h]\<rparr>"
  by (rule Database.equality)
     (simp_all add: departments_startup_event users_startup_event empty_db_def)

lemma example_digest_contract: "digest_contract example_hash"
  by (simp add: digest_contract_def example_hash_def)

lemma example_verify_contract: "verify_contract example_hash example_verify"
  by (simp add: verify_contract_def example_verify_def)

lemma get_optional_user_total:
  "\<exists>identity. get_optional_user extract_token verify_token store request = Inr identity"
  by (simp add: get_optional_user_def identity_resolver_def
      split: option.split sum.split token_error.split)

lemma get_current_user_not_anonymous:
  "get_current_user extract_token verify_token store request \<noteq> Inr None"
  by (simp add: get_current_user_def identity_resolver_def
      split: option.split sum.split token_error.split)

section \<open>The claims about startup\<close>

text \<open>
  C1, as the specification states it: the administrative account is created if and only
  if the user table is empty, so a startup over a table with at least one user, of any
  name, creates no account. The code does not count users. It looks for a user whose
  username is \<open>admin\<close>; over a table that holds only \<open>bob\<close> it creates the account.
\<close>

theorem admin_created_beside_other_user:
  "users bob_db = [bob] \<and> created_users example_hash bob_db = [admin example_hash]"
  by (simp add: created_users_eq bob_db_def bob_def)

text \<open>
  C1, amended: the administrative account is created if and only if no user of the table
  has the username \<open>admin\<close>. Over a table with such a user, startup inserts no user; over
  a table without one (the empty table among them) it inserts exactly one, the
  administrator, behind the rows that were there.
\<close>

theorem admin_created_iff_no_admin_username:
  "(''admin'' \<in> set (map username (users d)) \<longrightarrow> created_users h d = []) \<and>
   (''admin'' \<notin> set (map username (users d)) \<longrightarrow> created_users h d = [admin h]) \<and>
   (users d = [] \<longrightarrow> created_users h d = [admin h]) \<and>
   users (startup_event h d) = users d @ created_users h d"
  using find_username_None [of "''admin''" "users d"]
  by (auto simp: created_users_eq users_startup_event)

theorem admin_created_iff_no_admin_username_witness:
  "created_users example_hash (startup_event example_hash empty_db) = [] \<and>
   created_users example_hash bob_db = [admin example_hash] \<and>
   created_users example_hash empty_db = [admin example_hash] \<and>
   users (startup_event example_hash bob_db) = [bob, admin example_hash]"
  using admin_created_iff_no_admin_username [of "startup_event example_hash empty_db" example_hash]
    admin_created_iff_no_admin_username [of bob_db example_hash]
    admin_created_iff_no_admin_username [of empty_db example_hash]
  by (simp add: startup_event_empty_db bob_db_def bob_def empty_db_def admin_def)

text \<open>
  C2: bootstrap is idempotent. Two startups in sequence over the empty database leave
  exactly one account in the user table, the administrator: the second startup finds it,
  inserts nothing and returns the database as the first one left it. The hasher may
  answer differently at the second startup (another salt); it is not called.
\<close>

theorem bootstrap_twice_one_admin:
  "startup_event h2 (startup_event h1 empty_db) = startup_event h1 empty_db \<and>
   created_users h2 (startup_event h1 empty_db) = [] \<and>
   users (startup_event h2 (startup_event h1 empty_db)) = [admin h1] \<and>
   length (filter (\<lambda>u. username u = ''admin'')
     (users (startup_event h2 (startup_event h1 empty_db)))) = 1 \<and>
   length (filter (\<lambda>u. role u = ADMIN)
     (users (startup_event h2 (startup_event h1 empty_db)))) = 1"
  unfolding created_users_def startup_event_idem
  by (simp add: startup_event_empty_db admin_def)

text \<open>
  C4: department seeding runs at startup if and only if the department table is empty.
  When the count of departments is zero, the table after startup holds exactly the 14
  inserted departments, with the distinct codes K1 to K14; when the count is not zero,
  nothing is inserted and the table is unchanged.
\<close>

theorem departments_seeded_iff_empty:
  "(length (departments d) = 0 \<longrightarrow>
      created_departments h d = departments_data \<and>
      departments (startup_event h d) = departments_data \<and>
      length (created_departments h d) = 14 \<and>
      map code (created_departments h d) =
        [''K1'', ''K2'', ''K3'', ''K4'', ''K5'', ''K6'', ''K7'', ''K8'', ''K9'', ''K10'',
         ''K11'', ''K12'', ''K13'', ''K14''] \<and>
      distinct (map code (created_departments h d))) \<and>
   (length (departments d) \<noteq> 0 \<longrightarrow>
      created_departments h d = [] \<and>
      departments (startup_event h d) = departments d)"
  by (simp add: created_departments_eq departments_startup_event codes_departments_data
      length_departments_data)

theorem departments_seeded_iff_empty_witness:
  "length (created_departments example_hash empty_db) = 14 \<and>
   departments (startup_event example_hash empty_db) = departments_data \<and>
   created_departments example_hash bob_db = [] \<and>
   departments (startup_event example_hash bob_db) = [\<lparr>code = ''K1'', name = ''Khoa''\<rparr>]"
  using departments_seeded_iff_empty [of empty_db example_hash]
    departments_seeded_iff_empty [of bob_db example_hash]
  by (simp add: empty_db_def bob_db_def length_departments_data)

text \<open>
  C5: the seeded administrative account has the identifier \<open>admin\<close>, the role ADMIN and,
  as stored password hash, the hash of the default password \<open>admin123\<close>, which is not
  the plaintext; so after a bootstrap that created the account (over the empty database,
  or any database without a user \<open>admin\<close>), login with \<open>admin\<close> and \<open>admin123\<close> succeeds
  and returns a token issued for \<open>admin\<close>.
\<close>

theorem seeded_admin_can_login:
  assumes "digest_contract get_password_hash"
    and "verify_contract get_password_hash verify_password"
    and "''admin'' \<notin> set (map username (users d))"
  shows "find (\<lambda>u. username u = ''admin'') (users (startup_event get_password_hash d))
           = Some (admin get_password_hash) \<and>
         username (admin get_password_hash) = ''admin'' \<and>
         role (admin get_password_hash) = ADMIN \<and>
         hashed_password (admin get_password_hash) = get_password_hash ''admin123'' \<and>
         hashed_password (admin get_password_hash) \<noteq> ''admin123'' \<and>
         login verify_password issue (users (startup_event get_password_hash d))
           ''admin'' ''admin123'' = Inr (issue ''admin'', admin get_password_hash)"
proof -
  have none: "find (\<lambda>u. username u = ''admin'') (users d) = None"
    using assms(3) by (simp add: find_username_None)
  have found: "find (\<lambda>u. username u = ''admin'') (users (startup_event get_password_hash d))
      = Some (admin get_password_hash)"
    using none by (simp add: users_startup_event find_append_cases admin_def)
  have hash: "get_password_hash ''admin123'' \<noteq> ''admin123'' \<and>
      verify_password ''admin123'' (get_password_hash ''admin123'')"
    using assms(1,2) by (simp add: digest_contract_def verify_contract_def)
  have stored: "hashed_password (admin get_password_hash) = get_password_hash ''admin123''"
    by (simp add: admin_def)
  show ?thesis
    using found hash stored by (simp add: login_def) (simp add: admin_def)
qed

theorem seeded_admin_can_login_witness:
  "users (startup_event example_hash empty_db) = [admin example_hash] \<and>
   hashed_password (admin example_hash) = ''$ex$admin123'' \<and>
   login example_verify example_issue (users (startup_event example_hash empty_db))
     ''admin'' ''admin123'' = Inr (''token-admin'', admin example_hash)"
  using seeded_admin_can_login [OF example_digest_contract example_verify_contract,
      of empty_db example_issue]
  by (simp add: empty_db_def startup_event_empty_db [unfolded empty_db_def] example_issue_def
      example_hash_def)

text \<open>
  C6: every user record that startup creates (the bootstrap administrator is the only
  one) stores a password hash that is not empty and is not the plaintext password
  \<open>admin123\<close> that produced it.
\<close>

theorem created_user_hash_not_plaintext:
  assumes "digest_contract get_password_hash"
  shows "\<forall>u \<in> set (created_users get_password_hash d).
           hashed_password u = get_password_hash ''admin123'' \<and>
           hashed_password u \<noteq> [] \<and>
           hashed_password u \<noteq> ''admin123''"
proof -
  have "get_password_hash ''admin123'' \<noteq> [] \<and> get_password_hash ''admin123'' \<noteq> ''admin123''"
    using assms by (simp add: digest_contract_def)
  then show ?thesis
    by (simp add: created_users_eq admin_def)
qed

theorem created_user_hash_not_plaintext_witness:
  "created_users example_hash empty_db = [admin example_hash] \<and>
   hashed_password (admin example_hash) \<noteq> [] \<and>
   hashed_password (admin example_hash) \<noteq> ''admin123''"
  using created_user_hash_not_plaintext [OF example_digest_contract, of empty_db]
  by (simp add: created_users_eq empty_db_def admin_def example_hash_def)

section \<open>The claims about the page routes\<close>

text \<open>
  C3: on each of the page routes \<open>/\<close>, \<open>/materials\<close>, \<open>/detail\<close>, \<open>/dashboard\<close> and
  \<open>/statistics\<close>, a request that resolves to no authenticated user is answered by a
  redirect to \<open>/login\<close> with status 302, and the main logic of the route does not run:
  no department query and no template render.
\<close>

theorem anonymous_page_redirects_to_login:
  "get_page ''/'' request db None = Some (RedirectResponse ''/login'' 302, []) \<and>
   get_page ''/materials'' request db None = Some (RedirectResponse ''/login'' 302, []) \<and>
   get_page ''/detail'' request db None = Some (RedirectResponse ''/login'' 302, []) \<and>
   get_page ''/dashboard'' request db None = Some (RedirectResponse ''/login'' 302, []) \<and>
   get_page ''/statistics'' request db None = Some (RedirectResponse ''/login'' 302, [])"
  by (simp add: get_page_def page_routes_def index_def materials_page_def detail_page_def
      dashboard_page_def statistics_page_def)

text \<open>
  C9: a request to \<open>/login\<close> or \<open>/register\<close> by an authenticated user is answered by a
  redirect to \<open>/dashboard\<close> with status 302 and nothing is rendered; an anonymous
  request to these routes renders the page (\<open>login.html\<close>, \<open>register.html\<close>) and is not
  a redirect.
\<close>

theorem login_register_redirect_authenticated:
  "get_page ''/login'' request db (Some u) = Some (RedirectResponse ''/dashboard'' 302, []) \<and>
   get_page ''/register'' request db (Some u) = Some (RedirectResponse ''/dashboard'' 302, []) \<and>
   get_page ''/login'' request db None =
     Some (TemplateResponse ''login.html'' [(''request'', Request_value request)],
           [Render_template ''login.html'']) \<and>
   get_page ''/register'' request db None =
     Some (TemplateResponse ''register.html'' [(''request'', Request_value request)],
           [Render_template ''register.html'']) \<and>
   \<not> is_redirect (fst (login_page request db None)) \<and>
   \<not> is_redirect (fst (register_page request db None)) \<and>
   filter is_render (snd (login_page request db (Some u))) = [] \<and>
   filter is_render (snd (register_page request db (Some u))) = []"
  by (simp add: get_page_def page_routes_def login_page_def register_page_def)

text \<open>
  C10: the root route \<open>/\<close> never renders content. For every request its response is a
  302 redirect, to \<open>/login\<close> when the request is anonymous and to \<open>/dashboard\<close> when an
  authenticated user is resolved.
\<close>

theorem root_always_redirects:
  "get_page ''/'' request db user =
     Some (RedirectResponse (case user of None \<Rightarrow> ''/login'' | Some u \<Rightarrow> ''/dashboard'') 302, []) \<and>
   is_redirect (fst (index request db user)) \<and>
   snd (index request db user) = []"
  by (simp add: get_page_def page_routes_def index_def split: option.split)

section \<open>The claims about the guards\<close>

text \<open>
  C7: the Optional Identity Resolver never fails for a request that carries no token or
  an invalid token. For every such request it yields the anonymous sentinel, and the
  route proceeds with that value: the guarded main logic runs on anonymous, and the
  login page, which the source guards with it, is rendered.
\<close>

theorem optional_resolver_never_fails:
  assumes "extract_token request = None \<or>
           (\<exists>token. extract_token request = Some token \<and>
              verify_token token = Inl TokenInvalid)"
  shows "get_optional_user extract_token verify_token store request = Inr None \<and>
         guard (get_optional_user extract_token verify_token store request) main_logic
           = Inr (main_logic None) \<and>
         guard (get_optional_user extract_token verify_token store request)
             (login_page request db)
           = Inr (TemplateResponse ''login.html'' [(''request'', Request_value request)],
                  [Render_template ''login.html''])"
proof -
  have "get_optional_user extract_token verify_token store request = Inr None"
    using assms by (auto simp: get_optional_user_def identity_resolver_def)
  then show ?thesis
    by (simp add: guard_def login_page_def)
qed

theorem optional_resolver_never_fails_witness:
  "get_optional_user example_extract example_verify_token [bob] None = Inr None \<and>
   get_optional_user example_extract example_verify_token [bob] (Some ''forged'') = Inr None"
proof -
  have no_token: "example_extract None = None \<or>
      (\<exists>token. example_extract None = Some token \<and> example_verify_token token = Inl TokenInvalid)"
    by (simp add: example_extract_def)
  have invalid: "example_extract (Some ''forged'') = None \<or>
      (\<exists>token. example_extract (Some ''forged'') = Some token \<and>
         example_verify_token token = Inl TokenInvalid)"
    by (simp add: example_extract_def example_verify_token_def)
  show ?thesis
    using optional_resolver_never_fails [where extract_token = example_extract
        and request = "None" and verify_token = example_verify_token and store = "[bob]"
        and main_logic = id and db = "get_db empty_db", OF no_token]
      optional_resolver_never_fails [where extract_token = example_extract
        and request = "Some ''forged''" and verify_token = example_verify_token and store = "[bob]"
        and main_logic = id and db = "get_db empty_db", OF invalid]
    by simp
qed

text \<open>
  C8: for every request whose identity resolves to an authenticated user whose role is
  not the required role, the Role Authorizer fails with Forbidden. Forbidden is not
  Unauthenticated, its status is 403 and not the 401 of Unauthenticated, and the response
  to it is the 403 on a browser page as on an API route, never the redirect to login.
\<close>

theorem role_mismatch_is_forbidden:
  assumes "get_current_user extract_token verify_token store request = Inr (Some u)"
    and "role u \<noteq> required"
  shows "role_authorizer required extract_token verify_token store request = Inl Forbidden \<and>
         Forbidden \<noteq> Unauthenticated \<and>
         status_code Forbidden = 403 \<and>
         status_code Unauthenticated = 401 \<and>
         failure_response surface Forbidden = Status 403 \<and>
         failure_response surface Forbidden \<noteq> Redirect_to_login"
  using assms by (simp add: role_authorizer_def)

theorem role_mismatch_is_forbidden_witness:
  "get_current_user example_extract example_verify_token [bob] (Some ''token-bob'')
     = Inr (Some bob) \<and>
   role_authorizer ADMIN example_extract example_verify_token [bob] (Some ''token-bob'')
     = Inl Forbidden \<and>
   failure_response Browser_page Forbidden = Status 403"
proof -
  have resolved: "get_current_user example_extract example_verify_token [bob]
      (Some ''token-bob'') = Inr (Some bob)"
    by (simp add: get_current_user_def identity_resolver_def example_extract_def
        example_verify_token_def bob_def)
  have mismatch: "role bob \<noteq> ADMIN"
    by (simp add: bob_def)
  show ?thesis
    using resolved role_mismatch_is_forbidden [OF resolved mismatch, of Browser_page]
    by simp
qed

end
